theory Spec2Isabelle
  imports Main "HOL-Library.AList" "HOL-Library.Sublist" "HOL-Library.Word"
begin

section \<open>Data model of \<open>sendver.py\<close>\<close>

text \<open>
  The module defines one class, \<open>CameraApp\<close>.  Its timer slot \<open>update_frame\<close> reads a
  camera frame, optionally runs \<open>apply_face_filter\<close> on it and puts the result on the
  scene.  Everything the class calls outside itself (OpenCV, MediaPipe and the functions
  imported from the module \<open>filters\<close>) is a parameter of the model, collected in the
  record \<open>env\<close>.  A Python call can raise, so every such parameter returns a sum whose
  left side is the exception.
\<close>

datatype exn = KeyError string | ValueError | Raised string

text \<open>A numpy array of bytes: its \<open>shape\<close> and its flat buffer (\<open>.data\<close>).\<close>

record ndarray =
  shape :: "nat list"
  buf :: "8 word list"

text \<open>\<open>mp.solutions.face_mesh.FaceMesh(max_num_faces=10)\<close>: the detector object.\<close>

record face_mesh_obj =
  max_num_faces :: nat

text \<open>\<open>QImage(data, w, h, bytes_per_line, QImage.Format_RGB888)\<close>, the item shown on the scene.\<close>

record qimage =
  img_data :: "8 word list"
  img_w :: nat
  img_h :: nat
  img_bytes_per_line :: nat

text \<open>
  The attributes of \<open>self\<close> that the modelled methods read or write.  \<open>current_frame\<close> is
  \<open>None\<close> while the attribute does not exist (\<open>hasattr\<close> in \<open>capture_image\<close>); the two
  dicts are association lists in insertion order.
\<close>

record camera_app =
  face_mesh :: face_mesh_obj
  filter_states :: "(string \<times> bool) list"
  background_images :: "(int \<times> string) list"
  current_background :: "string option"
  current_frame :: "ndarray option"
  scene :: "qimage list"

text \<open>
  One entry per call that leaves the class, in call order.  \<open>'lm\<close> is the type of
  \<open>face_landmarks.landmark\<close>, which the class only passes on.
\<close>

datatype 'lm event =
    is_EvCapRead: EvCapRead
  | is_EvFlip: EvFlip
  | is_EvCvtColor: EvCvtColor
  | is_EvProcess: EvProcess ndarray
  | is_EvAddBlush: EvAddBlush 'lm
  | is_EvSunglasses: EvSunglasses 'lm
  | is_EvRabbitEars: EvRabbitEars 'lm
  | is_EvImread: EvImread string
  | is_EvBackground: EvBackground 'lm

text \<open>
  The program state: the application object, the outside world \<open>'w\<close> (camera, file
  system, the detector's tracking state) and the record of outside calls made so far.
\<close>

record ('lm, 'w) state =
  app :: camera_app
  world :: 'w
  calls :: "'lm event list"

text \<open>
  The outside functions.  \<open>cap_read\<close> is \<open>self.cap.read()\<close>: \<open>None\<close> stands for
  \<open>(False, None)\<close>, \<open>Some f\<close> for \<open>(True, f)\<close>.  \<open>cv_flip\<close> is \<open>cv2.flip(frame, 1)\<close> and
  \<open>cvtColor\<close> is \<open>cv2.cvtColor(frame, cv2.COLOR_BGR2RGB)\<close>; both build a new array.
  \<open>face_mesh_process\<close> returns \<open>results.multi_face_landmarks\<close>.  The three overlay
  functions change the frame in place and their return value is dropped by the caller:
  their result here is the content of the frame after the call.  \<open>imread\<close> returns
  \<open>None\<close> for a file it cannot read.
\<close>

record ('lm, 'w) env =
  cap_read :: "'w \<Rightarrow> (exn + ndarray option) \<times> 'w"
  cv_flip :: "ndarray \<Rightarrow> exn + ndarray"
  cvtColor :: "ndarray \<Rightarrow> exn + ndarray"
  face_mesh_process :: "face_mesh_obj \<Rightarrow> ndarray \<Rightarrow> 'w \<Rightarrow> (exn + 'lm list option) \<times> 'w"
  add_blush :: "ndarray \<Rightarrow> 'lm \<Rightarrow> 'w \<Rightarrow> (exn + ndarray) \<times> 'w"
  overlay_sunglasses :: "ndarray \<Rightarrow> 'lm \<Rightarrow> 'w \<Rightarrow> (exn + ndarray) \<times> 'w"
  overlay_rabbit_ears :: "ndarray \<Rightarrow> 'lm \<Rightarrow> 'w \<Rightarrow> (exn + ndarray) \<times> 'w"
  imread :: "string \<Rightarrow> 'w \<Rightarrow> (exn + ndarray option) \<times> 'w"
  apply_background_change :: "ndarray \<Rightarrow> 'lm \<Rightarrow> ndarray option \<Rightarrow> 'w \<Rightarrow> (exn + ndarray) \<times> 'w"

section \<open>Statements that may raise\<close>

type_synonym ('a, 's) pyM = "'s \<Rightarrow> (exn + 'a) \<times> 's"

definition returnM :: "'a \<Rightarrow> ('a, 's) pyM" where
  "returnM a = (\<lambda>s. (Inr a, s))"

definition bindM :: "('a, 's) pyM \<Rightarrow> ('a \<Rightarrow> ('b, 's) pyM) \<Rightarrow> ('b, 's) pyM" where
  "bindM m f = (\<lambda>s. case m s of (Inl e, s') \<Rightarrow> (Inl e, s') | (Inr a, s') \<Rightarrow> f a s')"

text \<open>A call of an outside function that depends on the world, and one that does not.\<close>

definition call :: "'lm event \<Rightarrow> ('w \<Rightarrow> (exn + 'a) \<times> 'w) \<Rightarrow> ('a, ('lm, 'w) state) pyM" where
  "call ev f = (\<lambda>s. case f (world s) of
                      (r, w') \<Rightarrow> (r, s\<lparr>world := w', calls := calls s @ [ev]\<rparr>))"

definition call_pure :: "'lm event \<Rightarrow> exn + 'a \<Rightarrow> ('a, ('lm, 'w) state) pyM" where
  "call_pure ev r = (\<lambda>s. (r, s\<lparr>calls := calls s @ [ev]\<rparr>))"

text \<open>\<open>self.filter_states[name]\<close>: raises \<open>KeyError\<close> for a missing key.\<close>

definition filter_flag :: "string \<Rightarrow> (bool, ('lm, 'w) state) pyM" where
  "filter_flag name = (\<lambda>s. case map_of (filter_states (app s)) name of
                             None \<Rightarrow> (Inl (KeyError name), s)
                           | Some b \<Rightarrow> (Inr b, s))"

text \<open>Python's \<open>any\<close> on a list of booleans.\<close>

definition any_py :: "bool list \<Rightarrow> bool" where
  "any_py bs = list_ex (\<lambda>b. b) bs"

section \<open>The methods of \<open>CameraApp\<close>\<close>

text \<open>\<open>__init__\<close>, as far as the attributes above go.\<close>

definition CameraApp_init :: "camera_app" where
  "CameraApp_init =
     \<lparr>face_mesh = \<lparr>max_num_faces = 10\<rparr>,
      filter_states = [(''Blush'', False), (''Sunglasses'', False),
                       (''RabbitEars'', False), (''Background'', False)],
      background_images = [(1, ''space.jpg''), (2, ''background.jpg'')],
      current_background = None,
      current_frame = None,
      scene = []\<rparr>"

text \<open>\<open>toggle_filter\<close>: the read of the old flag raises \<open>KeyError\<close> for an unknown name.\<close>

definition toggle_filter :: "string \<Rightarrow> (unit, ('lm, 'w) state) pyM" where
  "toggle_filter filter_name = (\<lambda>s.
     case map_of (filter_states (app s)) filter_name of
       None \<Rightarrow> (Inl (KeyError filter_name), s)
     | Some b \<Rightarrow>
         (Inr (), s\<lparr>app := (app s)\<lparr>filter_states :=
                      AList.update filter_name (\<not> b) (filter_states (app s))\<rparr>\<rparr>))"

definition toggle_background :: "bool \<Rightarrow> (unit, ('lm, 'w) state) pyM" where
  "toggle_background checked = (\<lambda>s.
     if checked then
       (case map_of (background_images (app s)) 1 of
          None \<Rightarrow> (Inl (KeyError ''1''), s)
        | Some img \<Rightarrow>
            (Inr (), s\<lparr>app := (app s)\<lparr>current_background := Some img,
                         filter_states :=
                           AList.update ''Background'' True (filter_states (app s))\<rparr>\<rparr>))
     else
       (Inr (), s\<lparr>app := (app s)\<lparr>current_background := None,
                    filter_states :=
                      AList.update ''Background'' False (filter_states (app s))\<rparr>\<rparr>))"

text \<open>
  The body of the loop over the faces, in two parts.  Lines 167 to 172: the three
  overlays that work in place.
\<close>

definition cosmetic_overlays ::
  "('lm, 'w) env \<Rightarrow> 'lm \<Rightarrow> ndarray \<Rightarrow> (ndarray, ('lm, 'w) state) pyM" where
  "cosmetic_overlays env lm frame =
     bindM (filter_flag ''Blush'') (\<lambda>blush.
     bindM (if blush then call (EvAddBlush lm) (add_blush env frame lm)
            else returnM frame) (\<lambda>frame.
     bindM (filter_flag ''Sunglasses'') (\<lambda>sunglasses.
     bindM (if sunglasses then call (EvSunglasses lm) (overlay_sunglasses env frame lm)
            else returnM frame) (\<lambda>frame.
     bindM (filter_flag ''RabbitEars'') (\<lambda>ears.
     if ears then call (EvRabbitEars lm) (overlay_rabbit_ears env frame lm)
     else returnM frame)))))"

text \<open>
  Lines 173 to 175.  \<open>self.current_background\<close> is true in Python when it is a
  non-empty string.  The image is read, and what \<open>imread\<close> returned goes to
  \<open>apply_background_change\<close> as it is; the frame is rebound to that function's result.
\<close>

definition background_overlay ::
  "('lm, 'w) env \<Rightarrow> 'lm \<Rightarrow> ndarray \<Rightarrow> (ndarray, ('lm, 'w) state) pyM" where
  "background_overlay env lm frame =
     bindM (filter_flag ''Background'') (\<lambda>background. (\<lambda>s.
       case current_background (app s) of
         None \<Rightarrow> returnM frame s
       | Some path \<Rightarrow>
           if background \<and> path \<noteq> [] then
             bindM (call (EvImread path) (imread env path)) (\<lambda>bg_image.
               call (EvBackground lm) (apply_background_change env frame lm bg_image)) s
           else returnM frame s))"

definition face_body ::
  "('lm, 'w) env \<Rightarrow> 'lm \<Rightarrow> ndarray \<Rightarrow> (ndarray, ('lm, 'w) state) pyM" where
  "face_body env lm frame =
     bindM (cosmetic_overlays env lm frame) (\<lambda>frame. background_overlay env lm frame)"

text \<open>\<open>for face_landmarks in results.multi_face_landmarks\<close>.\<close>

fun face_loop ::
  "('lm, 'w) env \<Rightarrow> 'lm list \<Rightarrow> ndarray \<Rightarrow> (ndarray, ('lm, 'w) state) pyM" where
  "face_loop env [] frame = returnM frame"
| "face_loop env (lm # rest) frame =
     bindM (face_body env lm frame) (\<lambda>frame. face_loop env rest frame)"

text \<open>
  \<open>apply_face_filter\<close>.  \<open>results.multi_face_landmarks\<close> is \<open>None\<close> or a list; the
  \<open>if\<close> takes a non-empty list only.
\<close>

definition apply_face_filter ::
  "('lm, 'w) env \<Rightarrow> ndarray \<Rightarrow> (ndarray, ('lm, 'w) state) pyM" where
  "apply_face_filter env frame =
     bindM (call_pure EvCvtColor (cvtColor env frame)) (\<lambda>frame_rgb.
     bindM (\<lambda>s. call (EvProcess frame_rgb)
                  (face_mesh_process env (face_mesh (app s)) frame_rgb) s) (\<lambda>results.
     case results of
       None \<Rightarrow> returnM frame
     | Some faces \<Rightarrow> if faces \<noteq> [] then face_loop env faces frame else returnM frame))"

text \<open>\<open>h, w, ch = rgb_image.shape\<close>: raises \<open>ValueError\<close> unless the shape has three entries.\<close>

definition unpack_shape :: "ndarray \<Rightarrow> (nat \<times> nat \<times> nat, 's) pyM" where
  "unpack_shape a = (\<lambda>s. case shape a of
                           [h, w, ch] \<Rightarrow> (Inr (h, w, ch), s)
                         | _ \<Rightarrow> (Inl ValueError, s))"

text \<open>\<open>update_frame\<close>, the timer slot.\<close>

definition update_frame :: "('lm, 'w) env \<Rightarrow> (unit, ('lm, 'w) state) pyM" where
  "update_frame env =
     bindM (call EvCapRead (cap_read env)) (\<lambda>r.
     case r of
       Some frame0 \<Rightarrow>
         bindM (call_pure EvFlip (cv_flip env frame0)) (\<lambda>frame.
         bindM (\<lambda>s. if any_py (map snd (filter_states (app s)))
                     then apply_face_filter env frame s
                     else returnM frame s) (\<lambda>frame.
         bindM (call_pure EvCvtColor (cvtColor env frame)) (\<lambda>rgb_image.
         bindM (unpack_shape rgb_image) (\<lambda>(h, w, ch). (\<lambda>s.
           (Inr (), s\<lparr>app := (app s)\<lparr>scene :=
                          [\<lparr>img_data = buf rgb_image, img_w = w, img_h = h,
                            img_bytes_per_line = ch * w\<rparr>],
                        current_frame := Some frame\<rparr>\<rparr>))))))
     | None \<Rightarrow> (\<lambda>s. (Inr (), s\<lparr>app := (app s)\<lparr>scene := []\<rparr>\<rparr>)))"

section \<open>The user interface\<close>

text \<open>
  \<open>initUI\<close> connects three buttons to \<open>toggle_filter\<close>, each with a fixed name, one
  button to \<open>toggle_background\<close> (the signal passes the new checked state), and the timer
  to \<open>update_frame\<close>.  The other slots (zoom, drag, start and stop of the timer,
  \<open>capture_image\<close>) write none of the attributes in \<open>camera_app\<close>.  An exception that
  leaves a slot does not undo what the slot did before it.
\<close>

datatype ui_event =
  BlushToggled | SunglassesToggled | RabbitEarsToggled | BackgroundToggled bool | TimerTimeout

fun slot :: "('lm, 'w) env \<Rightarrow> ui_event \<Rightarrow> (unit, ('lm, 'w) state) pyM" where
  "slot env BlushToggled = toggle_filter ''Blush''"
| "slot env SunglassesToggled = toggle_filter ''Sunglasses''"
| "slot env RabbitEarsToggled = toggle_filter ''RabbitEars''"
| "slot env (BackgroundToggled checked) = toggle_background checked"
| "slot env TimerTimeout = update_frame env"

fun run_ui :: "('lm, 'w) env \<Rightarrow> ui_event list \<Rightarrow> ('lm, 'w) state \<Rightarrow> ('lm, 'w) state" where
  "run_ui env [] s = s"
| "run_ui env (ev # evs) s = run_ui env evs (snd (slot env ev s))"

text \<open>The state right after \<open>CameraApp()\<close>, in a world \<open>w\<close>.\<close>

definition started :: "'w \<Rightarrow> ('lm, 'w) state" where
  "started w = \<lparr>app = CameraApp_init, world = w, calls = []\<rparr>"

section \<open>Notions used in the statements\<close>

text \<open>A filter flag that is present and true.\<close>

definition flag :: "camera_app \<Rightarrow> string \<Rightarrow> bool" where
  "flag a name = (map_of (filter_states a) name = Some True)"

text \<open>Python's truth value of \<open>self.current_background\<close>.\<close>

definition background_selected :: "camera_app \<Rightarrow> bool" where
  "background_selected a =
     (case current_background a of None \<Rightarrow> False | Some path \<Rightarrow> path \<noteq> [])"

text \<open>The outside calls of one pass through the loop body that runs to its end.\<close>

definition background_calls :: "camera_app \<Rightarrow> 'lm \<Rightarrow> 'lm event list" where
  "background_calls a lm =
     (case current_background a of
        None \<Rightarrow> []
      | Some path \<Rightarrow> if flag a ''Background'' \<and> path \<noteq> []
                     then [EvImread path, EvBackground lm] else [])"

definition face_calls :: "camera_app \<Rightarrow> 'lm \<Rightarrow> 'lm event list" where
  "face_calls a lm =
     (if flag a ''Blush'' then [EvAddBlush lm] else []) @
     (if flag a ''Sunglasses'' then [EvSunglasses lm] else []) @
     (if flag a ''RabbitEars'' then [EvRabbitEars lm] else []) @
     background_calls a lm"

text \<open>The faces the \<open>for\<close> loop iterates over, for a value of \<open>multi_face_landmarks\<close>.\<close>

definition faces_of :: "'lm list option \<Rightarrow> 'lm list" where
  "faces_of results = (case results of None \<Rightarrow> [] | Some faces \<Rightarrow> faces)"

text \<open>The calls made between two states.\<close>

definition new_calls :: "('lm, 'w) state \<Rightarrow> ('lm, 'w) state \<Rightarrow> 'lm event list" where
  "new_calls s s' = drop (length (calls s)) (calls s')"

text \<open>The state after lines 162 and 163, when neither call raised.\<close>

definition detected :: "('lm, 'w) state \<Rightarrow> ndarray \<Rightarrow> 'w \<Rightarrow> ('lm, 'w) state" where
  "detected s rgb w' = s\<lparr>world := w', calls := calls s @ [EvCvtColor, EvProcess rgb]\<rparr>"


text \<open>
  A computation \<open>m\<close> started in \<open>s\<close> leaves the application object alone and makes the
  calls \<open>L\<close>, all of them when it returns and an initial part of them when it raises.
\<close>

definition logs_at ::
  "('a, ('lm, 'w) state) pyM \<Rightarrow> ('lm, 'w) state \<Rightarrow> 'lm event list \<Rightarrow> bool" where
  "logs_at m s L = (case m s of (r, s') \<Rightarrow>
      app s' = app s \<and>
      (\<exists>evs. calls s' = calls s @ evs \<and> prefix evs L \<and> (isl r \<or> evs = L)))"

text \<open>What the wired slots keep true of the application object.\<close>

definition wired :: "camera_app \<Rightarrow> bool" where
  "wired a =
     (map fst (filter_states a) = [''Blush'', ''Sunglasses'', ''RabbitEars'', ''Background'']
      \<and> background_images a = [(1, ''space.jpg''), (2, ''background.jpg'')]
      \<and> max_num_faces (face_mesh a) = 10
      \<and> current_background a = (if flag a ''Background'' then Some ''space.jpg'' else None))"

definition config ::
  "('lm, 'w) state \<Rightarrow>
     face_mesh_obj \<times> (string \<times> bool) list \<times> (int \<times> string) list \<times> string option" where
  "config s = (face_mesh (app s), filter_states (app s), background_images (app s),
               current_background (app s))"

section \<open>A concrete instance of the outside functions\<close>

text \<open>
  To run the model on concrete frames the outside functions need values.  The world of
  this instance is the list of frames the camera will still deliver and the readable
  image files.  Colour conversion follows OpenCV for \<open>COLOR_BGR2RGB\<close>: it takes three or
  four channels, swaps blue and red, drops a fourth channel, and raises on any other
  shape.  The detector reads the number of faces off the red value of the first pixel,
  returns \<open>None\<close> for zero faces and never more than \<open>max_num_faces\<close> landmark sets; a
  landmark set is the index of its face.  The overlays write the face index plus one
  into a fixed byte of the frame.  \<open>lab_background\<close> keeps the first pixel and takes the
  rest from the image, and raises when there is no image.
\<close>

type_synonym lab_world = "ndarray list \<times> (string \<times> ndarray) list"

fun bgr2rgb :: "nat \<Rightarrow> 8 word list \<Rightarrow> 8 word list" where
  "bgr2rgb extra (b # g # r # rest) = r # g # b # bgr2rgb extra (drop extra rest)"
| "bgr2rgb extra rest = []"

fun mirror_row :: "8 word list \<Rightarrow> 8 word list" where
  "mirror_row (b # g # r # rest) = mirror_row rest @ [b, g, r]"
| "mirror_row rest = rest"

definition lab_cap_read :: "lab_world \<Rightarrow> (exn + ndarray option) \<times> lab_world" where
  "lab_cap_read w = (case fst w of
                       [] \<Rightarrow> (Inr None, w)
                     | f # rest \<Rightarrow> (Inr (Some f), (rest, snd w)))"

definition lab_cvtColor :: "ndarray \<Rightarrow> exn + ndarray" where
  "lab_cvtColor a = (case shape a of
       [h, w, ch] \<Rightarrow> if ch = 3 \<or> ch = 4
                     then Inr \<lparr>shape = [h, w, 3], buf = bgr2rgb (ch - 3) (buf a)\<rparr>
                     else Inl (Raised ''cv2.error'')
     | _ \<Rightarrow> Inl (Raised ''cv2.error''))"

definition lab_process ::
  "face_mesh_obj \<Rightarrow> ndarray \<Rightarrow> lab_world \<Rightarrow> (exn + nat list option) \<times> lab_world" where
  "lab_process fm rgb w =
     (Inr (case buf rgb of
             [] \<Rightarrow> None
           | x # _ \<Rightarrow> if x = 0 then None
                      else Some (take (max_num_faces fm) [0..<unat x])), w)"

definition lab_mark ::
  "nat \<Rightarrow> ndarray \<Rightarrow> nat \<Rightarrow> lab_world \<Rightarrow> (exn + ndarray) \<times> lab_world" where
  "lab_mark i frame lm w = (Inr (frame\<lparr>buf := (buf frame)[i := of_nat (Suc lm)]\<rparr>), w)"

definition lab_blush :: "ndarray \<Rightarrow> nat \<Rightarrow> lab_world \<Rightarrow> (exn + ndarray) \<times> lab_world" where
  "lab_blush frame lm w = (Inr (frame\<lparr>buf := of_nat (Suc lm) # tl (buf frame)\<rparr>), w)"

definition lab_background ::
  "ndarray \<Rightarrow> nat \<Rightarrow> ndarray option \<Rightarrow> lab_world \<Rightarrow> (exn + ndarray) \<times> lab_world" where
  "lab_background frame lm img w =
     (case img of
        None \<Rightarrow> (Inl (Raised ''cv2.error''), w)
      | Some b \<Rightarrow> (Inr (frame\<lparr>buf := take 3 (buf frame) @ drop 3 (buf b)\<rparr>), w))"

definition lab :: "(nat, lab_world) env" where
  "lab = \<lparr>cap_read = lab_cap_read,
          cv_flip = (\<lambda>a. Inr (a\<lparr>buf := mirror_row (buf a)\<rparr>)),
          cvtColor = lab_cvtColor,
          face_mesh_process = lab_process,
          add_blush = lab_blush,
          overlay_sunglasses = lab_mark 1,
          overlay_rabbit_ears = lab_mark 4,
          imread = (\<lambda>path w. (Inr (map_of (snd w) path), w)),
          apply_background_change = lab_background\<rparr>"

definition px :: "nat list \<Rightarrow> 8 word list \<Rightarrow> ndarray" where
  "px sh bs = \<lparr>shape = sh, buf = bs\<rparr>"

definition space_jpg :: ndarray where
  "space_jpg = px [1, 2, 3] [9, 9, 9, 7, 7, 7]"

text \<open>The application after one click on a filter button.\<close>

definition blush_on :: "lab_world \<Rightarrow> (nat, lab_world) state" where
  "blush_on w = run_ui lab [BlushToggled] (started w)"


section \<open>Sequencing and the record of calls\<close>


lemma bindM_keeps:
  assumes "\<And>s. g (snd (m s)) = g s" and "\<And>a s. g (snd (f a s)) = g s"
  shows "g (snd (bindM m f s)) = g s"
proof (cases "m s")
  case (Pair r s1)
  have s1: "g s1 = g s" using assms(1) [of s] Pair by simp
  show ?thesis
  proof (cases r)
    case (Inl e)
    with Pair s1 show ?thesis by (simp add: bindM_def)
  next
    case (Inr a)
    with Pair s1 assms(2) [of a s1] show ?thesis by (simp add: bindM_def)
  qed
qed

lemma logs_at_bind:
  assumes m: "logs_at m s L1"
    and f: "\<And>a s1. m s = (Inr a, s1) \<Longrightarrow> logs_at (f a) s1 L2"
  shows "logs_at (bindM m f) s (L1 @ L2)"
proof (cases "m s")
  case (Pair r s1)
  from m Pair obtain evs where
    a1: "app s1 = app s" and c1: "calls s1 = calls s @ evs" and p1: "prefix evs L1"
    and k1: "isl r \<or> evs = L1"
    by (auto simp: logs_at_def)
  show ?thesis
  proof (cases r)
    case (Inl e)
    with Pair a1 c1 p1 show ?thesis
      by (auto simp: logs_at_def bindM_def intro: prefix_prefix)
  next
    case (Inr a)
    with k1 have e1: "evs = L1" by simp
    from f [of a s1] Pair Inr have "logs_at (f a) s1 L2" by simp
    then obtain r2 s2 evs2 where
      r2: "f a s1 = (r2, s2)" and a2: "app s2 = app s1" and c2: "calls s2 = calls s1 @ evs2"
      and p2: "prefix evs2 L2" and k2: "isl r2 \<or> evs2 = L2"
      by (cases "f a s1") (auto simp: logs_at_def)
    have "bindM m f s = (r2, s2)" using Pair Inr r2 by (simp add: bindM_def)
    moreover have "calls s2 = calls s @ (L1 @ evs2)" using c1 c2 e1 by simp
    moreover have "prefix (L1 @ evs2) (L1 @ L2)" using p2 by simp
    moreover have "isl r2 \<or> L1 @ evs2 = L1 @ L2" using k2 by auto
    ultimately show ?thesis using a1 a2 unfolding logs_at_def by auto
  qed
qed

lemma logs_at_returnM: "logs_at (returnM a) s []"
  by (simp add: logs_at_def returnM_def)

lemma logs_at_call: "logs_at (call ev f) s [ev]"
  by (simp add: logs_at_def call_def split: prod.splits)

lemma logs_at_call_pure: "logs_at (call_pure ev r) s [ev]"
  by (simp add: logs_at_def call_pure_def)

lemma logs_at_filter_flag: "logs_at (filter_flag name) s []"
  by (simp add: logs_at_def filter_flag_def split: option.splits)

lemma filter_flag_Inr:
  "filter_flag name s = (Inr b, s') \<Longrightarrow> s' = s \<and> flag (app s) name = b"
  by (auto simp: filter_flag_def flag_def split: option.splits)

lemma logs_at_step:
  "logs_at (if b then call ev f else returnM x) s (if b then [ev] else [])"
  by (simp add: logs_at_call logs_at_returnM)

lemma logs_at_guarded:
  "logs_at (bindM (filter_flag name) (\<lambda>b. if b then call ev (f b) else returnM x)) s
     (if flag (app s) name then [ev] else [])"
proof -
  have "logs_at (bindM (filter_flag name) (\<lambda>b. if b then call ev (f b) else returnM x)) s
     ([] @ (if flag (app s) name then [ev] else []))"
  proof (rule logs_at_bind [OF logs_at_filter_flag])
    fix b s1 assume "filter_flag name s = (Inr b, s1)"
    then have "s1 = s" "flag (app s) name = b" using filter_flag_Inr by blast+
    then show "logs_at (if b then call ev (f b) else returnM x) s1
                 (if flag (app s) name then [ev] else [])"
      using logs_at_step [of b ev "f b" x s] by simp
  qed
  then show ?thesis by simp
qed

lemma logs_atD_app: "logs_at m s L \<Longrightarrow> app (snd (m s)) = app s"
  by (auto simp: logs_at_def split: prod.splits)


lemma logs_at_any:
  "logs_at m s L \<Longrightarrow> m s = (r, s') \<Longrightarrow>
     app s' = app s \<and> (\<exists>evs. calls s' = calls s @ evs \<and> prefix evs L)"
  by (auto simp: logs_at_def)

lemma cosmetic_overlays_logs:
  "logs_at (cosmetic_overlays env lm frame) s
     ((if flag (app s) ''Blush'' then [EvAddBlush lm] else []) @
      (if flag (app s) ''Sunglasses'' then [EvSunglasses lm] else []) @
      (if flag (app s) ''RabbitEars'' then [EvRabbitEars lm] else []))"
proof -
  let ?blush = "bindM (filter_flag ''Blush'') (\<lambda>b.
        if b then call (EvAddBlush lm) (add_blush env frame lm) else returnM frame)"
  let ?sun = "\<lambda>fr. bindM (filter_flag ''Sunglasses'') (\<lambda>b.
        if b then call (EvSunglasses lm) (overlay_sunglasses env fr lm) else returnM fr)"
  let ?ears = "\<lambda>fr. bindM (filter_flag ''RabbitEars'') (\<lambda>b.
        if b then call (EvRabbitEars lm) (overlay_rabbit_ears env fr lm) else returnM fr)"
  have eq: "cosmetic_overlays env lm frame = bindM ?blush (\<lambda>fr. bindM (?sun fr) ?ears)"
    unfolding cosmetic_overlays_def bindM_def
    by (auto simp: fun_eq_iff split: prod.splits sum.splits)
  have b: "logs_at ?blush s (if flag (app s) ''Blush'' then [EvAddBlush lm] else [])"
    using logs_at_guarded [of "''Blush''" "EvAddBlush lm" "\<lambda>_. add_blush env frame lm" frame s] .
  show ?thesis unfolding eq
  proof (rule logs_at_bind [OF b])
    fix f1 s1 assume 1: "?blush s = (Inr f1, s1)"
    have a1: "app s1 = app s" using logs_atD_app [OF b] 1 by simp
    have g: "logs_at (?sun f1) s1 (if flag (app s) ''Sunglasses'' then [EvSunglasses lm] else [])"
      using logs_at_guarded [of "''Sunglasses''" "EvSunglasses lm"
          "\<lambda>_. overlay_sunglasses env f1 lm" f1 s1] a1 by simp
    show "logs_at (bindM (?sun f1) ?ears) s1
       ((if flag (app s) ''Sunglasses'' then [EvSunglasses lm] else []) @
        (if flag (app s) ''RabbitEars'' then [EvRabbitEars lm] else []))"
    proof (rule logs_at_bind [OF g])
      fix f2 s2 assume 2: "?sun f1 s1 = (Inr f2, s2)"
      have a2: "app s2 = app s" using logs_atD_app [OF g] 2 a1 by simp
      show "logs_at (?ears f2) s2 (if flag (app s) ''RabbitEars'' then [EvRabbitEars lm] else [])"
        using logs_at_guarded [of "''RabbitEars''" "EvRabbitEars lm"
          "\<lambda>_. overlay_rabbit_ears env f2 lm" f2 s2] a2 by simp
    qed
  qed
qed

lemma background_overlay_logs:
  "logs_at (background_overlay env lm frame) s (background_calls (app s) lm)"
proof -
  have "logs_at (background_overlay env lm frame) s ([] @ background_calls (app s) lm)"
    unfolding background_overlay_def
  proof (rule logs_at_bind [OF logs_at_filter_flag])
    fix b s1 assume "filter_flag ''Background'' s = (Inr b, s1)"
    then have s1: "s1 = s" and b: "flag (app s) ''Background'' = b"
      using filter_flag_Inr by blast+
    have two: "\<And>path. logs_at (bindM (call (EvImread path) (imread env path)) (\<lambda>bg_image.
               call (EvBackground lm) (apply_background_change env frame lm bg_image))) s
               ([EvImread path] @ [EvBackground lm])"
      by (rule logs_at_bind [OF logs_at_call]) (rule logs_at_call)
    show "logs_at (\<lambda>s. case current_background (app s) of
                 None \<Rightarrow> returnM frame s
               | Some path \<Rightarrow>
                   if b \<and> path \<noteq> [] then
                     bindM (call (EvImread path) (imread env path)) (\<lambda>bg_image.
                       call (EvBackground lm) (apply_background_change env frame lm bg_image)) s
                   else returnM frame s) s1 (background_calls (app s) lm)"
    proof (cases "current_background (app s)")
      case None
      then show ?thesis using logs_at_returnM [of frame s]
        by (simp add: s1 logs_at_def background_calls_def)
    next
      case (Some path)
      then show ?thesis using logs_at_returnM [of frame s] two [of path] b
        by (simp add: s1 logs_at_def background_calls_def)
    qed
  qed
  then show ?thesis by simp
qed

lemma face_body_logs: "logs_at (face_body env lm frame) s (face_calls (app s) lm)"
proof -
  let ?L = "(if flag (app s) ''Blush'' then [EvAddBlush lm] else []) @
      (if flag (app s) ''Sunglasses'' then [EvSunglasses lm] else []) @
      (if flag (app s) ''RabbitEars'' then [EvRabbitEars lm] else [])"
  have "logs_at (face_body env lm frame) s (?L @ background_calls (app s) lm)"
    unfolding face_body_def
  proof (rule logs_at_bind [OF cosmetic_overlays_logs])
    fix f1 s1 assume "cosmetic_overlays env lm frame s = (Inr f1, s1)"
    then have "app s1 = app s"
      using logs_atD_app [OF cosmetic_overlays_logs, of env lm frame s] by simp
    then show "logs_at (background_overlay env lm f1) s1 (background_calls (app s) lm)"
      using background_overlay_logs [of env lm f1 s1] by simp
  qed
  then show ?thesis by (simp add: face_calls_def)
qed

lemma face_loop_logs:
  "logs_at (face_loop env faces frame) s (concat (map (face_calls (app s)) faces))"
proof (induction faces arbitrary: frame s)
  case Nil
  show ?case by (simp add: logs_at_returnM)
next
  case (Cons lm rest)
  have "logs_at (bindM (face_body env lm frame) (\<lambda>frame. face_loop env rest frame)) s
          (face_calls (app s) lm @ concat (map (face_calls (app s)) rest))"
  proof (rule logs_at_bind [OF face_body_logs])
    fix f1 s1 assume "face_body env lm frame s = (Inr f1, s1)"
    then have "app s1 = app s" using logs_atD_app [OF face_body_logs, of env lm frame s] by simp
    then show "logs_at (face_loop env rest f1) s1 (concat (map (face_calls (app s)) rest))"
      using Cons.IH [of f1 s1] by simp
  qed
  then show ?case by simp
qed

lemma face_loop_app: "app (snd (face_loop env faces frame s)) = app s"
  using logs_atD_app [OF face_loop_logs] .


lemma apply_face_filter_detected:
  assumes "cvtColor env frame = Inr rgb"
    and "face_mesh_process env (face_mesh (app s)) rgb (world s) = (Inr results, w')"
  shows "apply_face_filter env frame s = face_loop env (faces_of results) frame (detected s rgb w')"
  using assms
  by (cases results)
     (simp_all add: apply_face_filter_def bindM_def call_pure_def call_def faces_of_def
        detected_def returnM_def)

lemma apply_face_filter_app: "app (snd (apply_face_filter env frame s)) = app s"
  unfolding apply_face_filter_def
  by (intro bindM_keeps)
     (simp_all add: call_def call_pure_def returnM_def face_loop_app split: option.splits prod.splits)

lemma update_frame_config: "config (snd (update_frame env s)) = config s"
  unfolding update_frame_def
  by (intro bindM_keeps)
     (auto simp: config_def call_def call_pure_def returnM_def unpack_shape_def
        apply_face_filter_app intro!: bindM_keeps split: option.splits prod.splits list.splits)



section \<open>Counting calls\<close>

lemma count_face_calls:
  "length (filter P (concat (map (face_calls a) faces))) =
     (\<Sum>lm\<leftarrow>faces. length (filter P (face_calls a lm)))"
  by (induction faces) simp_all

lemma sum_list_const: "(\<Sum>x\<leftarrow>xs. (c::nat)) = length xs * c"
  by (induction xs) simp_all

lemma face_calls_blush:
  "length (filter is_EvAddBlush (face_calls a lm)) = (if flag a ''Blush'' then 1 else 0)"
  by (cases "current_background a")
     (simp_all add: face_calls_def background_calls_def background_selected_def)

lemma count_blush:
  "length (filter is_EvAddBlush (concat (map (face_calls a) faces))) =
     (if flag a ''Blush'' then length faces else 0)"
  by (simp add: count_face_calls face_calls_blush sum_list_const)

lemma face_calls_sunglasses:
  "length (filter is_EvSunglasses (face_calls a lm)) = (if flag a ''Sunglasses'' then 1 else 0)"
  by (cases "current_background a")
     (simp_all add: face_calls_def background_calls_def background_selected_def)

lemma count_sunglasses:
  "length (filter is_EvSunglasses (concat (map (face_calls a) faces))) =
     (if flag a ''Sunglasses'' then length faces else 0)"
  by (simp add: count_face_calls face_calls_sunglasses sum_list_const)

lemma face_calls_rabbit_ears:
  "length (filter is_EvRabbitEars (face_calls a lm)) = (if flag a ''RabbitEars'' then 1 else 0)"
  by (cases "current_background a")
     (simp_all add: face_calls_def background_calls_def background_selected_def)

lemma count_rabbit_ears:
  "length (filter is_EvRabbitEars (concat (map (face_calls a) faces))) =
     (if flag a ''RabbitEars'' then length faces else 0)"
  by (simp add: count_face_calls face_calls_rabbit_ears sum_list_const)

lemma face_calls_background:
  "length (filter is_EvBackground (face_calls a lm)) = (if flag a ''Background'' \<and> background_selected a then 1 else 0)"
  by (cases "current_background a")
     (simp_all add: face_calls_def background_calls_def background_selected_def)

lemma count_background:
  "length (filter is_EvBackground (concat (map (face_calls a) faces))) =
     (if flag a ''Background'' \<and> background_selected a then length faces else 0)"
  by (simp add: count_face_calls face_calls_background sum_list_const)

lemma face_calls_imread:
  "length (filter is_EvImread (face_calls a lm)) = (if flag a ''Background'' \<and> background_selected a then 1 else 0)"
  by (cases "current_background a")
     (simp_all add: face_calls_def background_calls_def background_selected_def)

lemma count_imread:
  "length (filter is_EvImread (concat (map (face_calls a) faces))) =
     (if flag a ''Background'' \<and> background_selected a then length faces else 0)"
  by (simp add: count_face_calls face_calls_imread sum_list_const)


lemma count_prefix: "prefix xs ys \<Longrightarrow> length (filter P xs) \<le> length (filter P ys)"
  by (auto simp: prefix_def)

section \<open>States reached through the buttons and the timer\<close>

lemma wired_config: "config s' = config s \<Longrightarrow> wired (app s') = wired (app s)"
  by (simp add: config_def wired_def flag_def)

lemma wired_init: "wired CameraApp_init"
  by (simp add: wired_def CameraApp_init_def flag_def)

lemma wired_toggle_filter:
  assumes "wired (app s)" and "name \<in> {''Blush'', ''Sunglasses'', ''RabbitEars''}"
  shows "wired (app (snd (toggle_filter name s)))"
proof -
  have keys: "map fst (filter_states (app s)) = [''Blush'', ''Sunglasses'', ''RabbitEars'', ''Background'']"
    using assms(1) by (simp add: wired_def)
  then have "name \<in> fst ` set (filter_states (app s))"
    using assms(2) by (metis (no_types, lifting) insert_iff list.set_map list.simps(15) empty_iff)
  moreover have "name \<noteq> ''Background''" using assms(2) by auto
  ultimately show ?thesis using assms(1)
    by (auto simp: toggle_filter_def wired_def flag_def update_keys update_conv'
             split: option.splits)
qed

lemma wired_toggle_background:
  assumes "wired (app s)"
  shows "wired (app (snd (toggle_background checked s)))"
proof -
  have keys: "map fst (filter_states (app s)) = [''Blush'', ''Sunglasses'', ''RabbitEars'', ''Background'']"
    using assms(1) by (simp add: wired_def)
  then have "''Background'' \<in> fst ` set (filter_states (app s))"
    by (metis (no_types, lifting) insert_iff list.set_map list.simps(15))
  then show ?thesis using assms(1)
    by (auto simp: toggle_background_def wired_def flag_def update_keys update_conv')
qed

lemma wired_slot: "wired (app s) \<Longrightarrow> wired (app (snd (slot env ev s)))"
proof (cases ev)
  case TimerTimeout
  assume "wired (app s)"
  then show ?thesis using wired_config [OF update_frame_config, of env s] TimerTimeout by simp
qed (simp_all add: wired_toggle_filter wired_toggle_background)

lemma wired_run_ui: "wired (app s) \<Longrightarrow> wired (app (run_ui env evs s))"
  by (induction evs arbitrary: s) (simp_all add: wired_slot)

lemma wired_reachable: "wired (app (run_ui env evs (started w)))"
  by (rule wired_run_ui) (simp add: started_def wired_init)

lemma reachable_background_selected:
  "flag (app (run_ui env evs (started w))) ''Background'' \<longrightarrow>
     background_selected (app (run_ui env evs (started w)))"
  using wired_reachable [of env evs w] by (simp add: wired_def background_selected_def)

section \<open>Evaluation of the concrete instance\<close>

lemmas lab_defs = lab_def lab_cap_read_def lab_cvtColor_def lab_process_def lab_mark_def
  lab_blush_def lab_background_def px_def space_jpg_def

lemmas model_defs = apply_face_filter_def update_frame_def face_body_def cosmetic_overlays_def
  background_overlay_def bindM_def returnM_def call_def call_pure_def filter_flag_def
  unpack_shape_def any_py_def toggle_filter_def toggle_background_def CameraApp_init_def
  started_def

lemma blush_on_eq:
  "blush_on w = \<lparr>app = CameraApp_init\<lparr>filter_states :=
       [(''Blush'', True), (''Sunglasses'', False), (''RabbitEars'', False),
        (''Background'', False)]\<rparr>, world = w, calls = []\<rparr>"
  by (simp add: blush_on_def model_defs)


section \<open>The claims\<close>

subsection \<open>C1\<close>

text \<open>
  C1.  When the detector reports no faces (\<open>multi_face_landmarks\<close> is \<open>None\<close> or an
  empty list), \<open>apply_face_filter\<close> returns the very frame it was given: no overlay is
  called, and only the colour conversion and the detection are added to the record.
\<close>

theorem apply_face_filter_no_faces:
  assumes "cvtColor env frame = Inr rgb"
    and "face_mesh_process env (face_mesh (app s)) rgb (world s) = (Inr results, w')"
    and "results = None \<or> results = Some []"
  shows "apply_face_filter env frame s =
           (Inr frame, s\<lparr>world := w', calls := calls s @ [EvCvtColor, EvProcess rgb]\<rparr>)"
  using assms(3) apply_face_filter_detected [OF assms(1,2)]
  by (auto simp: faces_of_def returnM_def detected_def)

text \<open>
  C1 on a concrete frame: the first pixel has red value 0, so no face is found, and the
  frame comes back as it went in.
\<close>

theorem apply_face_filter_no_faces_witness:
  "cvtColor lab (px [1, 2, 3] [1, 2, 0, 4, 5, 6]) = Inr (px [1, 2, 3] [0, 2, 1, 6, 5, 4])
   \<and> face_mesh_process lab (face_mesh (app (run_ui lab [BlushToggled] (started ([], [])))))
        (px [1, 2, 3] [0, 2, 1, 6, 5, 4]) ([], []) = (Inr None, ([], []))
   \<and> apply_face_filter lab (px [1, 2, 3] [1, 2, 0, 4, 5, 6])
        (run_ui lab [BlushToggled] (started ([], []))) =
       (Inr (px [1, 2, 3] [1, 2, 0, 4, 5, 6]),
        (run_ui lab [BlushToggled] (started ([], [])))
          \<lparr>world := ([], []), calls := [EvCvtColor, EvProcess (px [1, 2, 3] [0, 2, 1, 6, 5, 4])]\<rparr>)"
proof -
  let ?s = "run_ui lab [BlushToggled] (started ([], [])) :: (nat, lab_world) state"
  have 1: "cvtColor lab (px [1, 2, 3] [1, 2, 0, 4, 5, 6]) = Inr (px [1, 2, 3] [0, 2, 1, 6, 5, 4])"
    by (simp add: lab_defs)
  have 2: "face_mesh_process lab (face_mesh (app ?s)) (px [1, 2, 3] [0, 2, 1, 6, 5, 4]) (world ?s)
             = (Inr None, ([], []))"
    by (simp add: lab_defs model_defs)
  have 3: "calls ?s = []" "world ?s = ([], [])" by (simp_all add: model_defs)
  from apply_face_filter_no_faces [OF 1 2] 1 2 3 show ?thesis by simp
qed

subsection \<open>C2\<close>



subsection \<open>C3\<close>



subsection \<open>C4\<close>

text \<open>
  C4 fails as stated: a frame with four channels is taken by the colour conversion, no
  face is found, and the frame is returned with no error.
\<close>

theorem four_channel_frame_accepted:
  "shape (px [1, 1, 4] [0, 0, 0, 255]) = [1, 1, 4]
   \<and> fst (apply_face_filter lab (px [1, 1, 4] [0, 0, 0, 255]) (blush_on ([], [])))
       = Inr (px [1, 1, 4] [0, 0, 0, 255])"
  by (simp add: blush_on_eq lab_defs model_defs)

text \<open>
  C4, as the code has it.  \<open>apply_face_filter\<close> does not look at the shape of the frame.
  It raises exactly when the colour conversion raises, or the detector raises, or the
  loop over the faces raises, and the exception is the one raised there.
\<close>

theorem apply_face_filter_errors:
  "fst (apply_face_filter env frame s) = Inl e \<longleftrightarrow>
     cvtColor env frame = Inl e
     \<or> (\<exists>rgb. cvtColor env frame = Inr rgb \<and>
          (case face_mesh_process env (face_mesh (app s)) rgb (world s) of
             (Inl e', w') \<Rightarrow> e' = e
           | (Inr results, w') \<Rightarrow>
               fst (face_loop env (faces_of results) frame (detected s rgb w')) = Inl e))"
proof (cases "cvtColor env frame")
  case (Inl e')
  then show ?thesis by (simp add: apply_face_filter_def bindM_def call_pure_def)
next
  case (Inr rgb)
  show ?thesis
  proof (cases "face_mesh_process env (face_mesh (app s)) rgb (world s)")
    case (Pair r w')
    show ?thesis
    proof (cases r)
      case (Inl e')
      with Pair Inr show ?thesis
        by (simp add: apply_face_filter_def bindM_def call_pure_def call_def)
    next
      case (Inr results)
      with Pair \<open>cvtColor env frame = Inr rgb\<close> apply_face_filter_detected [of env frame rgb s results w']
      show ?thesis by simp
    qed
  qed
qed

text \<open>
  The amended C4 on a frame with two channels: the colour conversion raises, and that
  error is the result.
\<close>

theorem apply_face_filter_errors_witness:
  "cvtColor lab (px [1, 1, 2] [0, 0]) = Inl (Raised ''cv2.error'')
   \<and> fst (apply_face_filter lab (px [1, 1, 2] [0, 0]) (blush_on ([], [])))
       = Inl (Raised ''cv2.error'')"
proof -
  have 1: "cvtColor lab (px [1, 1, 2] [0, 0]) = Inl (Raised ''cv2.error'')"
    by (simp add: lab_defs)
  from apply_face_filter_errors [of lab "px [1, 1, 2] [0, 0]" "blush_on ([], [])" "Raised ''cv2.error''"] 1
  show ?thesis by simp
qed

subsection \<open>C5\<close>




subsection \<open>C6\<close>




subsection \<open>C7\<close>

text \<open>
  C7.  \<open>apply_face_filter\<close> leaves every attribute of the application object as it
  was, whether it returns or raises: the filter flags, the selected background and the
  stored frame among them.  \<open>update_frame\<close> leaves the filter flags and the selected
  background as they were, so only the toggle slots change them.
\<close>

theorem compositing_keeps_app:
  "app (snd (apply_face_filter env frame s)) = app s
   \<and> filter_states (app (snd (update_frame env s))) = filter_states (app s)
   \<and> current_background (app (snd (update_frame env s))) = current_background (app s)"
  using apply_face_filter_app [of env frame s] update_frame_config [of env s]
  by (simp add: config_def)

subsection \<open>C8\<close>

text \<open>
  C8.  When the camera read fails, the tick makes no other outside call, clears the
  scene, and changes nothing else: the stored frame and the filter state stay.
\<close>

theorem camera_read_failed:
  assumes "cap_read env (world s) = (Inr None, w1)"
  shows "update_frame env s =
           (Inr (), s\<lparr>world := w1, calls := calls s @ [EvCapRead],
                      app := (app s)\<lparr>scene := []\<rparr>\<rparr>)"
  using assms by (simp add: update_frame_def bindM_def call_def)

text \<open>
  C8 with a camera that has no frame to deliver.
\<close>

theorem camera_read_failed_witness:
  "cap_read lab (world (blush_on ([], []))) = (Inr None, ([], []))
   \<and> update_frame lab (blush_on ([], [])) =
       (Inr (), (blush_on ([], []))\<lparr>world := ([], []),
                   calls := calls (blush_on ([], [])) @ [EvCapRead],
                   app := (app (blush_on ([], [])))\<lparr>scene := []\<rparr>\<rparr>)"
proof -
  have 1: "cap_read lab (world (blush_on ([], []))) = (Inr None, ([], []))"
    by (simp add: blush_on_eq lab_defs)
  from camera_read_failed [OF 1] 1 show ?thesis by simp
qed

subsection \<open>C9\<close>

text \<open>
  C9.  In every state reached from start through the buttons and the timer, the
  selected background is none or \<open>space.jpg\<close>, never \<open>background.jpg\<close>, and the
  Background flag is true exactly when a background is selected.  Toggling on selects
  \<open>space.jpg\<close> and sets the flag; toggling off clears both.
\<close>

theorem background_selection:
  "(current_background (app (run_ui env evs (started w))) = None
      \<or> current_background (app (run_ui env evs (started w))) = Some ''space.jpg'')
   \<and> current_background (app (run_ui env evs (started w))) \<noteq> Some ''background.jpg''
   \<and> (flag (app (run_ui env evs (started w))) ''Background''
        \<longleftrightarrow> current_background (app (run_ui env evs (started w))) \<noteq> None)
   \<and> toggle_background True (run_ui env evs (started w)) =
       (Inr (), (run_ui env evs (started w))
          \<lparr>app := (app (run_ui env evs (started w)))
             \<lparr>current_background := Some ''space.jpg'',
              filter_states := AList.update ''Background'' True
                 (filter_states (app (run_ui env evs (started w))))\<rparr>\<rparr>)
   \<and> flag (app (snd (toggle_background True (run_ui env evs (started w))))) ''Background''
   \<and> current_background (app (snd (toggle_background False (run_ui env evs (started w))))) = None
   \<and> \<not> flag (app (snd (toggle_background False (run_ui env evs (started w))))) ''Background''"
proof -
  let ?s = "run_ui env evs (started w)"
  have w: "wired (app ?s)" by (rule wired_reachable)
  then have 1: "current_background (app ?s) =
                  (if flag (app ?s) ''Background'' then Some ''space.jpg'' else None)"
    and 2: "background_images (app ?s) = [(1, ''space.jpg''), (2, ''background.jpg'')]"
    by (simp_all add: wired_def)
  show ?thesis using 1 2
    by (simp add: toggle_background_def flag_def update_conv')
qed

text \<open>
  C9 after the background button went on, off and on again.
\<close>

theorem background_selection_witness:
  "flag (app (run_ui lab [BackgroundToggled True, BlushToggled, BackgroundToggled False,
                          BackgroundToggled True] (started ([], [])))) ''Background''
   \<and> current_background (app (run_ui lab [BackgroundToggled True, BlushToggled,
        BackgroundToggled False, BackgroundToggled True] (started ([], []))))
       = Some ''space.jpg''"
proof -
  let ?s = "run_ui lab [BackgroundToggled True, BlushToggled, BackgroundToggled False,
                        BackgroundToggled True] (started ([], [])) :: (nat, lab_world) state"
  have 1: "flag (app ?s) ''Background''"
    by (simp add: flag_def model_defs)
  from background_selection [of lab "[BackgroundToggled True, BlushToggled, BackgroundToggled False,
                    BackgroundToggled True]" "([], [])"] 1
  show ?thesis by auto
qed

subsection \<open>C10\<close>

text \<open>
  C10.  The application is built with \<open>max_num_faces = 10\<close>, and no slot changes it.
  When the detector returns no more landmark sets than it was configured for, the loop
  runs over at most ten faces, and a call of \<open>apply_face_filter\<close>, whether it returns or
  raises, calls each overlay function and \<open>imread\<close> at most ten times.
\<close>

theorem at_most_ten_faces:
  assumes "s = run_ui env evs (started w)"
    and "cvtColor env frame = Inr rgb"
    and "face_mesh_process env (face_mesh (app s)) rgb (world s) = (Inr results, w')"
    and "length (faces_of results) \<le> max_num_faces (face_mesh (app s))"
    and "apply_face_filter env frame s = (r, s')"
  shows "max_num_faces (face_mesh (app s)) = 10
       \<and> apply_face_filter env frame s =
           face_loop env (faces_of results) frame (detected s rgb w')
       \<and> length (faces_of results) \<le> 10
       \<and> length (filter is_EvAddBlush (new_calls s s')) \<le> 10
       \<and> length (filter is_EvSunglasses (new_calls s s')) \<le> 10
       \<and> length (filter is_EvRabbitEars (new_calls s s')) \<le> 10
       \<and> length (filter is_EvImread (new_calls s s')) \<le> 10
       \<and> length (filter is_EvBackground (new_calls s s')) \<le> 10"
proof -
  let ?faces = "faces_of results"
  let ?full = "concat (map (face_calls (app s)) ?faces)"
  have cap: "max_num_faces (face_mesh (app s)) = 10"
    using wired_reachable [of env evs w] assms(1) by (simp add: wired_def)
  with assms(4) have n: "length ?faces \<le> 10" by simp
  note eq = apply_face_filter_detected [OF assms(2,3)]
  with assms(5) have "face_loop env ?faces frame (detected s rgb w') = (r, s')" by simp
  from logs_at_any [OF face_loop_logs this] obtain evs' where
    c: "calls s' = calls s @ [EvCvtColor, EvProcess rgb] @ evs'" and p: "prefix evs' ?full"
    by (auto simp: detected_def)
  from c have nc: "new_calls s s' = [EvCvtColor, EvProcess rgb] @ evs'"
    by (simp add: new_calls_def)
  have b: "length (filter P evs') \<le> length ?faces"
    if "\<And>a. length (filter P (concat (map (face_calls a) ?faces))) \<le> length ?faces" for P
    using count_prefix [OF p, of P] that [of "app s"] by simp
  have "length (filter is_EvAddBlush evs') \<le> length ?faces"
    "length (filter is_EvSunglasses evs') \<le> length ?faces"
    "length (filter is_EvRabbitEars evs') \<le> length ?faces"
    "length (filter is_EvImread evs') \<le> length ?faces"
    "length (filter is_EvBackground evs') \<le> length ?faces"
    by (rule b, simp add: count_blush count_sunglasses count_rabbit_ears count_imread
          count_background)+
  with n cap eq show ?thesis unfolding nc by simp
qed

text \<open>
  C10 with twelve faces in view: the detector returns ten landmark sets.
\<close>

theorem at_most_ten_faces_witness:
  "cvtColor lab (px [1, 1, 3] [0, 0, 12]) = Inr (px [1, 1, 3] [12, 0, 0])
   \<and> face_mesh_process lab (face_mesh (app (run_ui lab [BlushToggled] (started ([], [])))))
        (px [1, 1, 3] [12, 0, 0]) (world (run_ui lab [BlushToggled] (started ([], []))))
       = (Inr (Some (take 10 [0..<12])), ([], []))
   \<and> length (faces_of (Some (take 10 [0..<12 :: nat]))) = 10
   \<and> length (filter is_EvAddBlush (new_calls (run_ui lab [BlushToggled] (started ([], [])))
        (snd (apply_face_filter lab (px [1, 1, 3] [0, 0, 12])
               (run_ui lab [BlushToggled] (started ([], []))))))) \<le> 10"
proof -
  let ?s = "run_ui lab [BlushToggled] (started ([], [])) :: (nat, lab_world) state"
  let ?f = "px [1, 1, 3] [0, 0, 12]"
  let ?rgb = "px [1, 1, 3] [12, 0, 0]"
  have 1: "cvtColor lab ?f = Inr ?rgb"
    by (simp add: lab_defs)
  have 2: "face_mesh_process lab (face_mesh (app ?s)) ?rgb (world ?s)
             = (Inr (Some (take 10 [0..<12])), ([], []))"
    by (simp add: lab_defs model_defs)
  have 3: "length (faces_of (Some (take 10 [0..<12 :: nat]))) \<le> max_num_faces (face_mesh (app ?s))"
    by (simp add: faces_of_def model_defs)
  have 4: "apply_face_filter lab ?f ?s =
             (fst (apply_face_filter lab ?f ?s), snd (apply_face_filter lab ?f ?s))"
    by simp
  from at_most_ten_faces [OF refl 1 2 3 4]
  have 5: "length (filter is_EvAddBlush (new_calls ?s (snd (apply_face_filter lab ?f ?s)))) \<le> 10"
    by (elim conjE)
  have 6: "length (faces_of (Some (take 10 [0..<12 :: nat]))) = 10"
    by (simp add: faces_of_def)
  from 1 2 5 6 show ?thesis by (intro conjI)
qed

end
